theory Spec2Isabelle
  imports Complex_Main
begin

section \<open>Configuration\<close>

text \<open>
  The fields of \<open>opt\<close> (the optimisation parameters) that \<open>training\<close> in
  \<open>train.py\<close> reads. Python integers are unbounded (\<open>int\<close>); Python and torch
  floating-point numbers are idealised as \<open>real\<close>, with the one operation whose
  floating-point result is not a real number (division by zero) written out
  separately below.
\<close>

record opt_params =
  iterations :: int
  densify_from_iter :: int
  densify_until_iter :: int
  densification_interval :: int
  opacity_reset_interval :: int
  densify_grad_threshold :: real
  lambda_dssim :: real
  optimizer_type :: string

text \<open>A concrete configuration used for evaluating the model on explicit inputs.\<close>

definition example_opt :: opt_params where
  "example_opt = \<lparr> iterations = 30000, densify_from_iter = 500,
     densify_until_iter = 15000, densification_interval = 100,
     opacity_reset_interval = 3000, densify_grad_threshold = 0.0002,
     lambda_dssim = 0.2, optimizer_type = ''default'' \<rparr>"

section \<open>Wavelet sub-band weights (train.py, lines 130-139)\<close>

definition wavelet_weights :: "opt_params \<Rightarrow> int \<Rightarrow> real list" where
  "wavelet_weights opt iteration =
     (if iteration > densify_from_iter opt \<and> iteration < densify_until_iter opt then
        (let progress = real_of_int (iteration - densify_from_iter opt)
                        / real_of_int (densify_until_iter opt - densify_from_iter opt);
             w_l1 = progress * 20;
             w_l2 = progress * 50
         in [w_l2, w_l1, 15])
      else if iteration > densify_until_iter opt then [0, 0, 0]
      else [0, 0, 15])"

text \<open>The interpolation parameter \<open>p\<close> of the specification.\<close>

definition window_progress :: "opt_params \<Rightarrow> int \<Rightarrow> real" where
  "window_progress opt iteration =
     real_of_int (iteration - densify_from_iter opt)
     / real_of_int (densify_until_iter opt - densify_from_iter opt)"

section \<open>Errors\<close>

text \<open>
  The ways in which the modelled part of \<open>training\<close> stops: \<open>sys.exit\<close>, the
  \<open>ZeroDivisionError\<close> of Python's \<open>%\<close>, and the errors torch raises for the
  maximum of an empty tensor and for a boolean mask whose shape does not match the
  indexed tensor.
\<close>

datatype exit_arg = ExitNone | ExitCode int | ExitMsg string

datatype error =
    SystemExit exit_arg
  | ZeroDivisionError
  | EmptyTensorError
  | MaskShapeError

text \<open>The process exit status of \<open>sys.exit(arg)\<close>: a string is printed and the status is 1.\<close>

fun exit_status :: "exit_arg \<Rightarrow> int" where
  "exit_status ExitNone = 0"
| "exit_status (ExitCode n) = n"
| "exit_status (ExitMsg m) = 1"

definition bind_res :: "error + 'a \<Rightarrow> ('a \<Rightarrow> error + 'b) \<Rightarrow> error + 'b" where
  "bind_res r f = (case r of Inl e \<Rightarrow> Inl e | Inr v \<Rightarrow> f v)"

text \<open>Python's \<open>a % b\<close> on integers: floor modulus, raising on a zero divisor.\<close>

definition pymod :: "int \<Rightarrow> int \<Rightarrow> error + int" where
  "pymod a b = (if b = 0 then Inl ZeroDivisionError else Inr (a mod b))"

section \<open>Floating-point results that are not real numbers\<close>

text \<open>
  The result of a floating-point division: a finite value, an infinity or NaN. The inputs
  of the localizer are finite, so sums and differences stay in \<open>real\<close>; only the
  quotient of the min-max normalisation can leave it.
\<close>

datatype tfloat = Fin real | PInf | NInf | NaN

definition tdiv :: "real \<Rightarrow> real \<Rightarrow> tfloat" where
  "tdiv a b =
     (if b \<noteq> 0 then Fin (a / b)
      else if a = 0 then NaN
      else if a > 0 then PInf else NInf)"

text \<open>Comparison \<open>a > b\<close>: false whenever an operand is NaN.\<close>

fun tgt :: "tfloat \<Rightarrow> tfloat \<Rightarrow> bool" where
  "tgt NaN _ = False"
| "tgt _ NaN = False"
| "tgt (Fin a) (Fin b) = (a > b)"
| "tgt PInf PInf = False"
| "tgt PInf _ = True"
| "tgt NInf _ = False"
| "tgt (Fin a) PInf = False"
| "tgt (Fin a) NInf = True"

text \<open>The order of \<open>torch.sort\<close>: ascending, NaN last.\<close>

fun sort_le :: "tfloat \<Rightarrow> tfloat \<Rightarrow> bool" where
  "sort_le _ NaN = True"
| "sort_le NaN _ = False"
| "sort_le a b = (\<not> tgt a b)"

fun tinsert :: "tfloat \<Rightarrow> tfloat list \<Rightarrow> tfloat list" where
  "tinsert x [] = [x]"
| "tinsert x (y # ys) = (if sort_le x y then x # y # ys else y # tinsert x ys)"

definition tsort :: "tfloat list \<Rightarrow> tfloat list" where
  "tsort xs = foldr tinsert xs []"

fun tsub :: "tfloat \<Rightarrow> tfloat \<Rightarrow> tfloat" where
  "tsub NaN _ = NaN"
| "tsub _ NaN = NaN"
| "tsub (Fin a) (Fin b) = Fin (a - b)"
| "tsub PInf PInf = NaN"
| "tsub NInf NInf = NaN"
| "tsub PInf _ = PInf"
| "tsub NInf _ = NInf"
| "tsub (Fin a) PInf = NInf"
| "tsub (Fin a) NInf = PInf"

fun tadd :: "tfloat \<Rightarrow> tfloat \<Rightarrow> tfloat" where
  "tadd NaN _ = NaN"
| "tadd _ NaN = NaN"
| "tadd (Fin a) (Fin b) = Fin (a + b)"
| "tadd PInf NInf = NaN"
| "tadd NInf PInf = NaN"
| "tadd PInf _ = PInf"
| "tadd NInf _ = NInf"
| "tadd (Fin a) PInf = PInf"
| "tadd (Fin a) NInf = NInf"

fun tscale :: "real \<Rightarrow> tfloat \<Rightarrow> tfloat" where
  "tscale w (Fin a) = Fin (w * a)"
| "tscale w NaN = NaN"
| "tscale w PInf = (if w = 0 then NaN else if w > 0 then PInf else NInf)"
| "tscale w NInf = (if w = 0 then NaN else if w > 0 then NInf else PInf)"

text \<open>
  \<open>torch.lerp(a, b, w)\<close>: \<open>a + w (b - a)\<close> for a weight below one half and
  \<open>b - (b - a) (1 - w)\<close> otherwise.
\<close>

definition tlerp :: "tfloat \<Rightarrow> tfloat \<Rightarrow> real \<Rightarrow> tfloat" where
  "tlerp a b w =
     (if w < 1 / 2 then tadd a (tscale w (tsub b a))
      else tsub b (tscale (1 - w) (tsub b a)))"

text \<open>
  \<open>torch.quantile(xs, q)\<close> on a flattened, non-empty tensor with the default linear
  interpolation: NaN if an entry is NaN; otherwise the entry of the sorted tensor at the
  rank \<open>q (n - 1)\<close>, interpolated between the two neighbouring entries when the rank is
  not an integer.
\<close>

definition tquantile :: "tfloat list \<Rightarrow> real \<Rightarrow> tfloat" where
  "tquantile xs q =
     (if NaN \<in> set xs then NaN
      else
        (let sorted = tsort xs;
             rank = q * real (length xs - 1);
             rank_below = nat \<lfloor>rank\<rfloor>;
             rank_above = nat \<lceil>rank\<rceil>;
             weight = rank - real rank_below
         in tlerp (sorted ! rank_below) (sorted ! rank_above) weight))"

section \<open>Discrepancy localizer (train.py, lines 174-231)\<close>

text \<open>
  The per-pixel discrepancy map (lines 176-193, produced by the wavelet library) is an
  input: the flattened list of its values. \<open>pixel_to_gaussians\<close> is the flattened list
  of the per-pixel contributor lists of the render output.
\<close>

text \<open>
  Lines 201-202: the maximum and the minimum of the map. torch raises on an empty tensor;
  \<open>localizer\<close> below returns that error before either is used.
\<close>

definition d_max :: "real list \<Rightarrow> real" where
  "d_max d = fold max (tl d) (hd d)"

definition d_min :: "real list \<Rightarrow> real" where
  "d_min d = fold min (tl d) (hd d)"

definition normalized_tensor :: "real list \<Rightarrow> tfloat list" where
  "normalized_tensor d = map (\<lambda>x. tdiv (x - d_min d) (d_max d - d_min d)) d"

definition percentile :: "opt_params \<Rightarrow> int \<Rightarrow> real" where
  "percentile opt iteration =
     (if 7001 \<le> iteration \<and> iteration \<le> densify_until_iter opt then 0.995 else 0.999)"

definition cutoff :: "opt_params \<Rightarrow> int \<Rightarrow> real list \<Rightarrow> tfloat" where
  "cutoff opt iteration d = tquantile (normalized_tensor d) (percentile opt iteration)"

text \<open>Line 216: the comparison is on \<open>per_pixel_discrepancy\<close> itself.\<close>

definition discrepancy_mask :: "opt_params \<Rightarrow> int \<Rightarrow> real list \<Rightarrow> bool list" where
  "discrepancy_mask opt iteration d = map (\<lambda>x. tgt (Fin x) (cutoff opt iteration d)) d"

text \<open>
  Lines 196 and 221-231: the contributor lists are cut to their first three entries, the
  lists of the flagged pixels are selected, negative entries are dropped, and
  \<open>torch.unique\<close> returns the remaining values sorted and without repetition.
\<close>

definition select_gaussians :: "int list list \<Rightarrow> bool list \<Rightarrow> int list" where
  "select_gaussians pixel_to_gaussians high_discrepancy_mask_flat =
     (let pixel_to_gaussians_flat = map (take 3) pixel_to_gaussians;
          selected_gaussians =
            map fst (filter snd (zip pixel_to_gaussians_flat high_discrepancy_mask_flat));
          valid_gaussians = filter (\<lambda>g. g \<ge> 0) (concat selected_gaussians)
      in sort (remdups valid_gaussians))"

definition localizer :: "opt_params \<Rightarrow> int \<Rightarrow> real list \<Rightarrow> int list list \<Rightarrow> error + int list" where
  "localizer opt iteration d pixel_to_gaussians =
     (if d = [] then Inl EmptyTensorError
      else if length pixel_to_gaussians \<noteq> length d then Inl MaskShapeError
      else Inr (select_gaussians pixel_to_gaussians (discrepancy_mask opt iteration d)))"

text \<open>Lines 172-174: the flagged set is \<open>None\<close> outside the localizer's window.\<close>

definition gaussians_to_densify ::
  "opt_params \<Rightarrow> int \<Rightarrow> real list \<Rightarrow> int list list \<Rightarrow> error + int list option" where
  "gaussians_to_densify opt iteration d pixel_to_gaussians =
     (if iteration \<ge> densify_from_iter opt \<and> iteration \<le> densify_until_iter opt then
        bind_res (localizer opt iteration d pixel_to_gaussians) (\<lambda>g. Inr (Some g))
      else Inr None)"

text \<open>
  The flag of the specification, for comparison: the normalized value of the pixel
  against the cutoff.
\<close>

definition spec_normalized_mask :: "opt_params \<Rightarrow> int \<Rightarrow> real list \<Rightarrow> bool list" where
  "spec_normalized_mask opt iteration d =
     map (\<lambda>v. tgt v (cutoff opt iteration d)) (normalized_tensor d)"

section \<open>Loss composition (train.py, lines 149-170, 251-254 and 292-304)\<close>

text \<open>
  The per-level wavelet residual \<open>level_loss\<close> (lines 155-167), the L1 term and the
  structural similarity are computed by library code and are inputs here.
\<close>

definition wavelet_loss :: "opt_params \<Rightarrow> int \<Rightarrow> (nat \<Rightarrow> real) \<Rightarrow> real" where
  "wavelet_loss opt iteration level_loss =
     fold (\<lambda>level acc. acc + level_loss level * (wavelet_weights opt iteration ! level))
       [0 ..< 3] 0"

definition mean_t :: "real list \<Rightarrow> real" where
  "mean_t xs = sum_list xs / real (length xs)"

record viewpoint =
  depth_reliable :: bool
  invdepthmap :: "real list"
  depth_mask :: "real list"

text \<open>Line 299: \<open>torch.abs((invDepth - mono_invdepth) * depth_mask).mean()\<close>.\<close>

definition Ll1depth_pure :: "real list \<Rightarrow> real list \<Rightarrow> real list \<Rightarrow> real" where
  "Ll1depth_pure invDepth mono_invdepth dmask =
     mean_t (map (\<lambda>((a, b), m). \<bar>(a - b) * m\<bar>) (zip (zip invDepth mono_invdepth) dmask))"

text \<open>
  The loss on which \<open>backward\<close> is called at line 306. \<open>depth_l1_weight\<close> is the
  schedule returned by \<open>get_expon_lr_func\<close>, a function of the iteration.
\<close>

definition total_loss ::
  "opt_params \<Rightarrow> (int \<Rightarrow> real) \<Rightarrow> int \<Rightarrow> real \<Rightarrow> real \<Rightarrow> real \<Rightarrow> viewpoint \<Rightarrow> real list \<Rightarrow> real" where
  "total_loss opt depth_l1_weight iteration Ll1 ssim_value wavelet_loss_value viewpoint_cam invDepth =
     (let L1_LOSS = (1 - lambda_dssim opt) * Ll1;
          SSIM_LOSS = lambda_dssim opt * (1 - ssim_value);
          loss = L1_LOSS + SSIM_LOSS + wavelet_loss_value
      in if depth_l1_weight iteration > 0 \<and> depth_reliable viewpoint_cam then
           loss + depth_l1_weight iteration
                  * Ll1depth_pure invDepth (invdepthmap viewpoint_cam) (depth_mask viewpoint_cam)
         else loss)"

text \<open>
  The depth term in the words of the specification:
  \<open>mean(|rendered_invdepth - reference_invdepth| * validity_mask)\<close>.
\<close>

definition spec_depth_error :: "real list \<Rightarrow> real list \<Rightarrow> real list \<Rightarrow> real" where
  "spec_depth_error rendered reference validity =
     mean_t (map (\<lambda>((a, b), m). \<bar>a - b\<bar> * m) (zip (zip rendered reference) validity))"

section \<open>Population state and external collaborators\<close>

text \<open>
  The part of \<open>GaussianModel\<close> that the loop reads and writes: the trainable tensors
  (kept abstract) and the per-primitive running statistics.
\<close>

record 'p gaussians =
  params :: 'p
  max_radii2D :: "real list"
  xyz_gradient_accum :: "real list"
  denom :: "real list"

text \<open>
  What the renderer and the backward pass deliver in one iteration: visibility flags and
  screen radii per primitive, the norm of the screen-space position gradient per
  primitive, the gradient left in the \<open>.grad\<close> fields of the trainable tensors, the
  per-pixel discrepancy map and the per-pixel contributor lists.
\<close>

record 'g iter_input =
  visibility_filter :: "bool list"
  radii :: "real list"
  viewspace_grad_norm :: "real list"
  gradient :: 'g
  per_pixel_discrepancy :: "real list"
  pixel_to_gaussians :: "int list list"

text \<open>
  The methods of \<open>GaussianModel\<close>, the optimizers and the renderer that are called but
  not defined in \<open>train.py\<close>, as parameters of the model.
\<close>

record ('p, 'g) externals =
  render_and_backward :: "int \<Rightarrow> 'p gaussians \<Rightarrow> 'g iter_input"
  densify_and_prune ::
    "real \<Rightarrow> real \<Rightarrow> real \<Rightarrow> int option \<Rightarrow> real list \<Rightarrow> int list option
       \<Rightarrow> 'p gaussians \<Rightarrow> 'p gaussians"
  reset_opacity :: "'p gaussians \<Rightarrow> 'p gaussians"
  optimizer_step :: "'g \<Rightarrow> 'p \<Rightarrow> 'p"
  sparse_optimizer_step :: "bool list \<Rightarrow> nat \<Rightarrow> 'g \<Rightarrow> 'p \<Rightarrow> 'p"

record run_config =
  white_background :: bool
  SPARSE_ADAM_AVAILABLE :: bool
  saving_iterations :: "int list"
  checkpoint_iterations :: "int list"
  cameras_extent :: real

text \<open>
  The observable calls of one iteration, in order. \<open>Backward\<close> is \<open>loss.backward()\<close>
  of line 306; \<open>TermBackward\<close> is the backward pass of one loss term in the gradient
  report of lines 272-288. \<open>SceneSave\<close> and \<open>Checkpoint\<close> carry the population
  they persist; \<open>OptimizerStep\<close> carries whether the sparse variant was stepped;
  \<open>DensifyAndPrune\<close> carries the size threshold and the flagged set it was called
  with. Printing and plotting are left out.
\<close>

datatype loss_term = L1_term | SSIM_term | Wavelet_term

datatype 'p event =
    Backward
  | TermBackward loss_term
  | SceneSave int 'p
  | DensifyAndPrune "int option" "int list option"
  | ResetOpacity
  | ExposureStep
  | ExposureZeroGrad
  | OptimizerStep bool
  | ZeroGrad
  | Checkpoint int "'p gaussians"

section \<open>Statistics, densification and opacity reset (train.py, lines 330-341)\<close>

text \<open>Line 333: the maximum is taken at the positions selected by the visibility mask.\<close>

definition update_max_radii2D :: "real list \<Rightarrow> bool list \<Rightarrow> real list \<Rightarrow> error + real list" where
  "update_max_radii2D mr vis rad =
     (if length vis \<noteq> length mr \<or> length rad \<noteq> length vis then Inl MaskShapeError
      else Inr (map (\<lambda>(m, v, r). if v then max m r else m) (zip mr (zip vis rad))))"

text \<open>
  Modelled from the spec: \<open>GaussianModel.add_densification_stats\<close> is defined outside
  \<open>train.py\<close>. The specification describes it as accumulating the position-space
  gradient magnitude with a visit count, scoped to the primitives visible in the
  iteration.
\<close>

definition add_densification_stats ::
  "real list \<Rightarrow> bool list \<Rightarrow> 'p gaussians \<Rightarrow> error + 'p gaussians" where
  "add_densification_stats grad_norm update_filter st =
     (if length update_filter \<noteq> length (xyz_gradient_accum st)
         \<or> length update_filter \<noteq> length (denom st)
         \<or> length grad_norm \<noteq> length update_filter then Inl MaskShapeError
      else Inr (st\<lparr>
        xyz_gradient_accum :=
          map (\<lambda>(a, v, g). if v then a + g else a)
            (zip (xyz_gradient_accum st) (zip update_filter grad_norm)),
        denom :=
          map (\<lambda>(c, v). if v then c + 1 else c) (zip (denom st) update_filter)\<rparr>))"

text \<open>Lines 333-334.\<close>

definition statistics_update :: "'g iter_input \<Rightarrow> 'p gaussians \<Rightarrow> error + 'p gaussians" where
  "statistics_update inp st =
     bind_res (update_max_radii2D (max_radii2D st) (visibility_filter inp) (radii inp))
       (\<lambda>mr. add_densification_stats (viewspace_grad_norm inp) (visibility_filter inp)
                (st\<lparr>max_radii2D := mr\<rparr>))"

text \<open>
  The per-primitive tensors of the render output and of the population have one entry
  per primitive.
\<close>

definition shapes_agree :: "'g iter_input \<Rightarrow> 'p gaussians \<Rightarrow> bool" where
  "shapes_agree inp st \<longleftrightarrow>
     length (visibility_filter inp) = length (max_radii2D st) \<and>
     length (radii inp) = length (max_radii2D st) \<and>
     length (viewspace_grad_norm inp) = length (max_radii2D st) \<and>
     length (xyz_gradient_accum st) = length (max_radii2D st) \<and>
     length (denom st) = length (max_radii2D st)"

text \<open>Lines 336-338.\<close>

definition densify_step ::
  "('p, 'g) externals \<Rightarrow> run_config \<Rightarrow> opt_params \<Rightarrow> int \<Rightarrow> 'g iter_input
     \<Rightarrow> int list option \<Rightarrow> 'p gaussians \<Rightarrow> error + ('p gaussians \<times> 'p event list)" where
  "densify_step ext cfg opt iteration inp flagged st =
     (if iteration > densify_from_iter opt then
        bind_res (pymod iteration (densification_interval opt))
          (\<lambda>r. if r = 0 then
                 (let size_threshold =
                        (if iteration > opacity_reset_interval opt then Some 20 else None)
                  in Inr (densify_and_prune ext (densify_grad_threshold opt) 0.02
                            (cameras_extent cfg) size_threshold (radii inp) flagged st,
                          [DensifyAndPrune size_threshold flagged]))
               else Inr (st, []))
      else Inr (st, []))"

text \<open>Lines 340-341.\<close>

definition reset_step ::
  "('p, 'g) externals \<Rightarrow> run_config \<Rightarrow> opt_params \<Rightarrow> int \<Rightarrow> 'p gaussians
     \<Rightarrow> error + ('p gaussians \<times> 'p event list)" where
  "reset_step ext cfg opt iteration st =
     bind_res (pymod iteration (opacity_reset_interval opt))
       (\<lambda>r. if r = 0 \<or> (white_background cfg \<and> iteration = densify_from_iter opt)
             then Inr (reset_opacity ext st, [ResetOpacity])
             else Inr (st, []))"

text \<open>Lines 331-341.\<close>

definition densification ::
  "('p, 'g) externals \<Rightarrow> run_config \<Rightarrow> opt_params \<Rightarrow> int \<Rightarrow> 'g iter_input
     \<Rightarrow> int list option \<Rightarrow> 'p gaussians \<Rightarrow> error + ('p gaussians \<times> 'p event list)" where
  "densification ext cfg opt iteration inp flagged st =
     (if iteration < densify_until_iter opt then
        bind_res (statistics_update inp st)
          (\<lambda>st1. bind_res (densify_step ext cfg opt iteration inp flagged st1)
             (\<lambda>(st2, ev2). bind_res (reset_step ext cfg opt iteration st2)
                (\<lambda>(st3, ev3). Inr (st3, ev2 @ ev3))))
      else Inr (st, []))"

section \<open>Optimizer step and checkpoint (train.py, lines 343-357)\<close>

definition use_sparse_adam :: "run_config \<Rightarrow> opt_params \<Rightarrow> bool" where
  "use_sparse_adam cfg opt = (optimizer_type opt = ''sparse_adam'' \<and> SPARSE_ADAM_AVAILABLE cfg)"

definition optimizer_block ::
  "('p, 'g) externals \<Rightarrow> run_config \<Rightarrow> opt_params \<Rightarrow> int \<Rightarrow> 'g iter_input
     \<Rightarrow> 'p gaussians \<Rightarrow> 'p gaussians \<times> 'p event list" where
  "optimizer_block ext cfg opt iteration inp st =
     (if iteration < iterations opt then
        (if use_sparse_adam cfg opt then
           (let visible = map (\<lambda>r. r > 0) (radii inp)
            in (st\<lparr>params := sparse_optimizer_step ext visible (length (radii inp))
                                 (gradient inp) (params st)\<rparr>,
                [ExposureStep, ExposureZeroGrad, OptimizerStep True, ZeroGrad]))
         else
           (st\<lparr>params := optimizer_step ext (gradient inp) (params st)\<rparr>,
            [ExposureStep, ExposureZeroGrad, OptimizerStep False, ZeroGrad]))
      else (st, []))"

section \<open>One iteration and the training loop (train.py, lines 46-76 and 172-357)\<close>

text \<open>
  Lines 255-288: every 500 iterations the gradient of each loss term is reported, each
  after clearing the gradients of the trainable tensors.
\<close>

definition gradient_report :: "int \<Rightarrow> 'p event list" where
  "gradient_report iteration =
     (if iteration mod 500 = 0 then
        [ZeroGrad, TermBackward L1_term, ZeroGrad, TermBackward SSIM_term,
         ZeroGrad, TermBackward Wavelet_term]
      else [])"

text \<open>
  One pass through the loop body from the localizer on: the flagged set (lines 172-231),
  the gradient report, the backward pass (line 306), the save event (lines 323-326), the
  densification block, the optimizer block and the checkpoint event (lines 355-357). The
  viewer connection, the learning-rate and SH-degree updates, the choice of the camera and
  the evaluation report do not touch the statistics or the control flow modelled here and
  are left out.
\<close>

definition training_iteration ::
  "('p, 'g) externals \<Rightarrow> run_config \<Rightarrow> opt_params \<Rightarrow> int \<Rightarrow> 'p gaussians
     \<Rightarrow> error + ('p gaussians \<times> 'p event list)" where
  "training_iteration ext cfg opt iteration st =
     (let inp = render_and_backward ext iteration st in
      bind_res (gaussians_to_densify opt iteration (per_pixel_discrepancy inp)
                  (pixel_to_gaussians inp))
        (\<lambda>flagged.
           let ev0 = gradient_report iteration @ Backward #
                 (if iteration \<in> set (saving_iterations cfg)
                  then [SceneSave iteration (params st)] else [])
           in bind_res (densification ext cfg opt iteration inp flagged st)
                (\<lambda>(st1, ev1).
                   let (st2, ev2) = optimizer_block ext cfg opt iteration inp st1;
                       ev3 = (if iteration \<in> set (checkpoint_iterations cfg)
                              then [Checkpoint iteration st2] else [])
                   in Inr (st2, ev0 @ ev1 @ ev2 @ ev3))))"


text \<open>
  The loop returns the events of the iterations it completed and how it ended: with an
  error, or with the final population.
\<close>

fun run_iterations ::
  "('p, 'g) externals \<Rightarrow> run_config \<Rightarrow> opt_params \<Rightarrow> int list \<Rightarrow> 'p gaussians
     \<Rightarrow> 'p event list \<times> (error + 'p gaussians)" where
  "run_iterations ext cfg opt [] st = ([], Inr st)"
| "run_iterations ext cfg opt (iteration # rest) st =
     (case training_iteration ext cfg opt iteration st of
        Inl e \<Rightarrow> ([], Inl e)
      | Inr (st1, ev1) \<Rightarrow>
          (let (ev2, r) = run_iterations ext cfg opt rest st1 in (ev1 @ ev2, r)))"

text \<open>
  \<open>training\<close>: the availability check of lines 48-49, then the loop over
  \<open>range(first_iter + 1, opt.iterations + 1)\<close>.
\<close>

definition sparse_adam_message :: string where
  "sparse_adam_message =
     ''Trying to use sparse adam but it is not installed, please install the correct rasterizer using pip install [3dgs_accel].''"

definition training ::
  "('p, 'g) externals \<Rightarrow> run_config \<Rightarrow> opt_params \<Rightarrow> int \<Rightarrow> 'p gaussians
     \<Rightarrow> 'p event list \<times> (error + 'p gaussians)" where
  "training ext cfg opt first_iter st =
     (if \<not> SPARSE_ADAM_AVAILABLE cfg \<and> optimizer_type opt = ''sparse_adam'' then
        ([], Inl (SystemExit (ExitMsg sparse_adam_message)))
      else run_iterations ext cfg opt [first_iter + 1 .. iterations opt] st)"

text \<open>Concrete collaborators and inputs used for evaluating the model.\<close>

definition example_input :: "real iter_input" where
  "example_input = \<lparr> visibility_filter = [True, False], radii = [5, 7],
     viewspace_grad_norm = [3, 4], gradient = 1,
     per_pixel_discrepancy = [2, 4],
     pixel_to_gaussians = [[0, 1, 0, 1], [1, -1, -1, -1]] \<rparr>"

definition example_ext :: "(real, real) externals" where
  "example_ext = \<lparr> render_and_backward = (\<lambda>i st. example_input),
     densify_and_prune = (\<lambda>thr mo ext sz r f st. st\<lparr>max_radii2D := map (\<lambda>x. 0) (max_radii2D st)\<rparr>),
     reset_opacity = (\<lambda>st. st),
     optimizer_step = (\<lambda>g p. p - g),
     sparse_optimizer_step = (\<lambda>v n g p. p - g) \<rparr>"

definition example_cfg :: run_config where
  "example_cfg = \<lparr> white_background = False, SPARSE_ADAM_AVAILABLE = False,
     saving_iterations = [7000, 30000], checkpoint_iterations = [30000],
     cameras_extent = 1 \<rparr>"

definition example_gaussians :: "real gaussians" where
  "example_gaussians = \<lparr> params = 10, max_radii2D = [1, 2],
     xyz_gradient_accum = [0, 0], denom = [0, 0] \<rparr>"

definition example_viewpoint :: viewpoint where
  "example_viewpoint = \<lparr> depth_reliable = True, invdepthmap = [2, 3, 2],
     depth_mask = [1, 1, 0] \<rparr>"

section \<open>Properties of the weight schedule\<close>

lemma wavelet_weights_inside:
  assumes "densify_from_iter opt < iteration" "iteration < densify_until_iter opt"
  shows "wavelet_weights opt iteration =
           [50 * window_progress opt iteration, 20 * window_progress opt iteration, 15]"
  using assms by (simp add: wavelet_weights_def window_progress_def Let_def)

lemma window_progress_strict_mono:
  assumes "i < j" "densify_from_iter opt < densify_until_iter opt"
  shows "window_progress opt i < window_progress opt j"
proof -
  have pos: "0 < real_of_int (densify_until_iter opt - densify_from_iter opt)"
    using assms(2) by simp
  have "real_of_int (i - densify_from_iter opt) < real_of_int (j - densify_from_iter opt)"
    using assms(1) by simp
  then show ?thesis
    unfolding window_progress_def using pos by (simp add: divide_strict_right_mono)
qed

text \<open>
  Claim C2, counterexample. At the iteration equal to the window end neither branch of
  the schedule fires and the weights are the baseline \<open>[0, 0, 15]\<close>, not \<open>[0, 0, 0]\<close>.
\<close>

theorem C2_counterexample:
  "wavelet_weights example_opt 15000 = [0, 0, 15] \<and>
   15000 \<ge> densify_until_iter example_opt \<and>
   wavelet_weights example_opt 15000 \<noteq> [0, 0, 0]"
  by (simp add: wavelet_weights_def example_opt_def)

text \<open>
  Claim C2, amended. With the window start not after the window end, the weight vector
  is \<open>[0, 0, 15]\<close> before the start, \<open>[50 p, 20 p, 15]\<close> with
  \<open>p = (iter - start) / (end - start)\<close> for every iteration in \<open>[start, end)\<close>, and
  \<open>[0, 0, 0]\<close> for every iteration strictly after the end; entries 0 and 1 are
  strictly increasing in the iteration across \<open>[start, end)\<close>.
\<close>

theorem C2_wavelet_weights_schedule:
  assumes "densify_from_iter opt \<le> densify_until_iter opt"
  shows "(iteration < densify_from_iter opt \<longrightarrow>
            wavelet_weights opt iteration = [0, 0, 15]) \<and>
         (densify_from_iter opt \<le> iteration \<and> iteration < densify_until_iter opt \<longrightarrow>
            wavelet_weights opt iteration =
              [50 * window_progress opt iteration, 20 * window_progress opt iteration, 15]) \<and>
         (densify_until_iter opt < iteration \<longrightarrow>
            wavelet_weights opt iteration = [0, 0, 0]) \<and>
         (densify_from_iter opt \<le> i \<and> i < j \<and> j < densify_until_iter opt \<longrightarrow>
            wavelet_weights opt i ! 0 < wavelet_weights opt j ! 0 \<and>
            wavelet_weights opt i ! 1 < wavelet_weights opt j ! 1)"
proof (intro conjI impI)
  assume "iteration < densify_from_iter opt"
  then show "wavelet_weights opt iteration = [0, 0, 15]"
    using assms by (simp add: wavelet_weights_def)
next
  assume h: "densify_from_iter opt \<le> iteration \<and> iteration < densify_until_iter opt"
  show "wavelet_weights opt iteration =
          [50 * window_progress opt iteration, 20 * window_progress opt iteration, 15]"
  proof (cases "iteration = densify_from_iter opt")
    case True
    then show ?thesis using h by (simp add: wavelet_weights_def window_progress_def)
  next
    case False
    with h show ?thesis by (simp add: wavelet_weights_inside)
  qed
next
  assume "densify_until_iter opt < iteration"
  then show "wavelet_weights opt iteration = [0, 0, 0]"
    using assms by (simp add: wavelet_weights_def)
next
  assume h: "densify_from_iter opt \<le> i \<and> i < j \<and> j < densify_until_iter opt"
  then have win: "densify_from_iter opt < densify_until_iter opt" by simp
  have wj: "wavelet_weights opt j =
              [50 * window_progress opt j, 20 * window_progress opt j, 15]"
    using h by (simp add: wavelet_weights_inside)
  have wi: "wavelet_weights opt i =
              [50 * window_progress opt i, 20 * window_progress opt i, 15]"
  proof (cases "i = densify_from_iter opt")
    case True
    then show ?thesis using h by (simp add: wavelet_weights_def window_progress_def)
  next
    case False
    with h show ?thesis by (simp add: wavelet_weights_inside)
  qed
  have "window_progress opt i < window_progress opt j"
    using h win by (simp add: window_progress_strict_mono)
  then show "wavelet_weights opt i ! 0 < wavelet_weights opt j ! 0"
    by (simp add: wi wj)
next
  assume h: "densify_from_iter opt \<le> i \<and> i < j \<and> j < densify_until_iter opt"
  then have win: "densify_from_iter opt < densify_until_iter opt" by simp
  have wj: "wavelet_weights opt j =
              [50 * window_progress opt j, 20 * window_progress opt j, 15]"
    using h by (simp add: wavelet_weights_inside)
  have wi: "wavelet_weights opt i =
              [50 * window_progress opt i, 20 * window_progress opt i, 15]"
  proof (cases "i = densify_from_iter opt")
    case True
    then show ?thesis using h by (simp add: wavelet_weights_def window_progress_def)
  next
    case False
    with h show ?thesis by (simp add: wavelet_weights_inside)
  qed
  have "window_progress opt i < window_progress opt j"
    using h win by (simp add: window_progress_strict_mono)
  then show "wavelet_weights opt i ! 1 < wavelet_weights opt j ! 1"
    by (simp add: wi wj)
qed

theorem C2_wavelet_weights_schedule_witness:
  "densify_from_iter example_opt \<le> densify_until_iter example_opt \<and>
   wavelet_weights example_opt 100 = [0, 0, 15] \<and>
   wavelet_weights example_opt 7750 = [25, 10, 15] \<and>
   wavelet_weights example_opt 15001 = [0, 0, 0] \<and>
   wavelet_weights example_opt 600 ! 0 < wavelet_weights example_opt 7750 ! 0"
proof -
  have h: "densify_from_iter example_opt \<le> densify_until_iter example_opt"
    by (simp add: example_opt_def)
  have a: "wavelet_weights example_opt 100 = [0, 0, 15]"
    using C2_wavelet_weights_schedule [OF h, of 100 0 0] by (simp add: example_opt_def)
  have b: "wavelet_weights example_opt 7750 = [25, 10, 15]"
    using C2_wavelet_weights_schedule [OF h, of 7750 0 0]
    by (simp add: example_opt_def window_progress_def)
  have c: "wavelet_weights example_opt 15001 = [0, 0, 0]"
    using C2_wavelet_weights_schedule [OF h, of 15001 0 0] by (simp add: example_opt_def)
  have d: "wavelet_weights example_opt 600 ! 0 < wavelet_weights example_opt 7750 ! 0"
    using C2_wavelet_weights_schedule [OF h, of 0 600 7750] by (simp add: example_opt_def)
  from h a b c d show ?thesis by simp
qed

section \<open>Properties of the localizer\<close>

lemma d_min_eq_Min: "d \<noteq> [] \<Longrightarrow> d_min d = Min (set d)"
  by (cases d) (simp_all add: d_min_def Min.set_eq_fold [symmetric])

lemma d_max_eq_Max: "d \<noteq> [] \<Longrightarrow> d_max d = Max (set d)"
  by (cases d) (simp_all add: d_max_def Max.set_eq_fold [symmetric])

lemma d_min_le: "x \<in> set d \<Longrightarrow> d_min d \<le> x"
  by (cases "d = []") (simp_all add: d_min_eq_Min)

lemma d_max_ge: "x \<in> set d \<Longrightarrow> x \<le> d_max d"
  by (cases "d = []") (simp_all add: d_max_eq_Max)

text \<open>
  Inside the localizer's window the percentile is 0.999 up to iteration 7000 and 0.995
  from iteration 7001 on.
\<close>

lemma percentile_in_window:
  assumes "iteration \<le> densify_until_iter opt"
  shows "percentile opt iteration = (if iteration \<le> 7000 then 0.999 else 0.995)"
  using assms by (simp add: percentile_def)

lemma normalized_finite:
  assumes "d_max d \<noteq> d_min d" "v \<in> set (normalized_tensor d)"
  shows "\<exists>r. v = Fin r \<and> 0 \<le> r \<and> r \<le> 1"
proof -
  from assms(2) obtain x where x: "x \<in> set d" "v = tdiv (x - d_min d) (d_max d - d_min d)"
    by (auto simp: normalized_tensor_def)
  have lo: "d_min d \<le> x" and hi: "x \<le> d_max d"
    using x(1) by (simp_all add: d_min_le d_max_ge)
  then have pos: "0 < d_max d - d_min d" using assms(1) by simp
  have v: "v = Fin ((x - d_min d) / (d_max d - d_min d))"
    using x(2) pos by (simp add: tdiv_def)
  have "0 \<le> (x - d_min d) / (d_max d - d_min d)" using lo pos by simp
  moreover have "(x - d_min d) / (d_max d - d_min d) \<le> 1" using hi pos by simp
  ultimately show ?thesis using v by blast
qed

lemma normalized_uniform:
  assumes "d_max d = d_min d"
  shows "normalized_tensor d = replicate (length d) NaN"
proof -
  have "\<And>x. x \<in> set d \<Longrightarrow> x = d_min d"
  proof -
    fix x assume "x \<in> set d"
    then have "d_min d \<le> x" "x \<le> d_max d" by (simp_all add: d_min_le d_max_ge)
    with assms show "x = d_min d" by simp
  qed
  then have "\<And>x. x \<in> set d \<Longrightarrow> tdiv (x - d_min d) (d_max d - d_min d) = NaN"
    using assms by (simp add: tdiv_def)
  then have "map (\<lambda>x. tdiv (x - d_min d) (d_max d - d_min d)) d = map (\<lambda>x. NaN) d"
    by (simp cong: map_cong)
  then show ?thesis by (simp add: normalized_tensor_def map_replicate_const)
qed

lemma cutoff_uniform:
  assumes "d \<noteq> []" "d_max d = d_min d"
  shows "cutoff opt iteration d = NaN"
  using assms by (simp add: cutoff_def tquantile_def normalized_uniform)

lemma mask_uniform:
  assumes "d \<noteq> []" "d_max d = d_min d"
  shows "discrepancy_mask opt iteration d = replicate (length d) False"
  using assms by (simp add: discrepancy_mask_def cutoff_uniform map_replicate_const)

lemma select_gaussians_no_flag: "select_gaussians p (replicate n False) = []"
proof -
  have "filter snd (zip (map (take 3) p) (replicate n False)) = []"
    by (auto simp: filter_empty_conv dest: set_zip_rightD)
  then show ?thesis by (simp add: select_gaussians_def)
qed

lemma set_select_gaussians:
  "set (select_gaussians p m) =
     {g. \<exists>i. i < length p \<and> i < length m \<and> m ! i \<and> g \<in> set (take 3 (p ! i)) \<and> 0 \<le> g}"
proof -
  have "set (select_gaussians p m) =
          {g. \<exists>l b. (l, b) \<in> set (zip (map (take 3) p) m) \<and> b \<and> g \<in> set l \<and> 0 \<le> g}"
    by (auto simp: select_gaussians_def Let_def)
  also have "\<dots> =
          {g. \<exists>i. i < length p \<and> i < length m \<and> m ! i \<and> g \<in> set (take 3 (p ! i)) \<and> 0 \<le> g}"
    by (fastforce simp: in_set_zip)
  finally show ?thesis .
qed

text \<open>
  Claim C1, evaluated on the two-pixel maps \<open>[2, 4]\<close> and \<open>[0.2, 0.4]\<close> at iteration
  600 (inside the window, percentile 0.999). In both cases the normalized map is
  \<open>[0, 1]\<close> and the cutoff is \<open>0.999\<close>. The code compares the map itself with the
  cutoff: it flags both pixels of the first map and no pixel of the second. Thresholding
  the normalized map flags the second pixel only, in both cases.
\<close>

theorem C1_mask_compares_unnormalized_map:
  "normalized_tensor [2, 4] = [Fin 0, Fin 1] \<and>
   cutoff example_opt 600 [2, 4] = Fin 0.999 \<and>
   discrepancy_mask example_opt 600 [2, 4] = [True, True] \<and>
   spec_normalized_mask example_opt 600 [2, 4] = [False, True] \<and>
   normalized_tensor [0.2, 0.4] = [Fin 0, Fin 1] \<and>
   discrepancy_mask example_opt 600 [0.2, 0.4] = [False, False] \<and>
   spec_normalized_mask example_opt 600 [0.2, 0.4] = [False, True]"
  by (simp add: spec_normalized_mask_def discrepancy_mask_def cutoff_def tquantile_def
      normalized_tensor_def d_max_def d_min_def tdiv_def percentile_def example_opt_def
      tsort_def tlerp_def)

text \<open>
  Claim C3, counterexample. On the uniform map \<open>[1, 1]\<close> the maximum equals the minimum
  and the normalized map is NaN at both pixels.
\<close>

theorem C3_counterexample:
  "d_max [1, 1] = d_min [1, 1] \<and> normalized_tensor [1, 1] = [NaN, NaN]"
  by (simp add: normalized_tensor_def d_max_def d_min_def tdiv_def)

text \<open>
  Claim C3, amended. The normalization is not guarded. For a non-empty map that is not
  uniform every normalized value is finite and lies in \<open>[0, 1]\<close>. For a uniform map
  every normalized value is NaN, the cutoff is NaN, no pixel is flagged and no primitive
  is selected.
\<close>

theorem C3_normalization_unguarded:
  assumes "d \<noteq> []"
  shows "(d_max d \<noteq> d_min d \<longrightarrow>
            (\<forall>v \<in> set (normalized_tensor d). \<exists>r. v = Fin r \<and> 0 \<le> r \<and> r \<le> 1)) \<and>
         (d_max d = d_min d \<longrightarrow>
            normalized_tensor d = replicate (length d) NaN \<and>
            cutoff opt iteration d = NaN \<and>
            discrepancy_mask opt iteration d = replicate (length d) False \<and>
            select_gaussians p (discrepancy_mask opt iteration d) = [])"
  using assms
  by (auto simp: normalized_uniform cutoff_uniform mask_uniform select_gaussians_no_flag
      dest: normalized_finite)

theorem C3_normalization_unguarded_witness:
  "[2, 4] \<noteq> ([] :: real list) \<and> [1, 1] \<noteq> ([] :: real list) \<and>
   normalized_tensor [2, 4] = [Fin 0, Fin 1] \<and>
   normalized_tensor [1, 1] = [NaN, NaN] \<and>
   cutoff example_opt 600 [1, 1] = NaN \<and>
   discrepancy_mask example_opt 600 [1, 1] = [False, False] \<and>
   select_gaussians [[0, 1, 2], [3, 4, 5]] (discrepancy_mask example_opt 600 [1, 1]) = []"
proof -
  have h1: "[2, 4] \<noteq> ([] :: real list)" and h2: "[1, 1] \<noteq> ([] :: real list)" by simp_all
  have u: "d_max [1, 1] = d_min [1, 1]" by (simp add: d_max_def d_min_def)
  have n: "d_max [2, 4] \<noteq> d_min [2, 4]" by (simp add: d_max_def d_min_def)
  have a: "\<forall>v \<in> set (normalized_tensor [2, 4]). \<exists>r. v = Fin r \<and> 0 \<le> r \<and> r \<le> 1"
    using C3_normalization_unguarded [OF h1] n by blast
  have b: "normalized_tensor [1, 1] = replicate (length [1, 1 :: real]) NaN \<and>
           cutoff example_opt 600 [1, 1] = NaN \<and>
           discrepancy_mask example_opt 600 [1, 1] = replicate (length [1, 1 :: real]) False \<and>
           select_gaussians [[0, 1, 2], [3, 4, 5]] (discrepancy_mask example_opt 600 [1, 1]) = []"
    using C3_normalization_unguarded [OF h2, of example_opt 600 "[[0, 1, 2], [3, 4, 5]]"] u
    by blast
  have c: "normalized_tensor [2, 4] = [Fin 0, Fin 1]"
    by (simp add: normalized_tensor_def d_max_def d_min_def tdiv_def)
  from b have b1: "normalized_tensor [1, 1] = [NaN, NaN]"
    by (simp add: numeral_2_eq_2)
  from b have b2: "cutoff example_opt 600 [1, 1] = NaN" by blast
  from b have b3: "discrepancy_mask example_opt 600 [1, 1] = [False, False]"
    by (simp add: numeral_2_eq_2)
  from b have b4:
    "select_gaussians [[0, 1, 2], [3, 4, 5]] (discrepancy_mask example_opt 600 [1, 1]) = []"
    by blast
  from h1 h2 c b1 b2 b3 b4 show ?thesis by blast
qed

text \<open>
  Claim C4, counterexample. A flagged pixel whose contributor list is \<open>[0, 1, 2, 3]\<close>:
  the list is cut to its first three entries, and the non-negative contributor 3 is not
  returned.
\<close>

theorem C4_counterexample:
  "select_gaussians [[0, 1, 2, 3]] [True] = [0, 1, 2] \<and>
   3 \<notin> set (select_gaussians [[0, 1, 2, 3]] [True])"
  by (simp add: select_gaussians_def)

text \<open>
  Claim C4, amended. The flagged primitives are exactly the non-negative entries among
  the first three entries of the contributor list of every flagged pixel; the returned
  list is sorted and has no repetition.
\<close>

theorem C4_flagged_set_of_first_three:
  "set (select_gaussians p m) =
     {g. \<exists>i. i < length p \<and> i < length m \<and> m ! i \<and> g \<in> set (take 3 (p ! i)) \<and> 0 \<le> g} \<and>
   distinct (select_gaussians p m) \<and> sorted (select_gaussians p m)"
proof -
  have "distinct (select_gaussians p m)" "sorted (select_gaussians p m)"
    by (simp_all add: select_gaussians_def Let_def)
  then show ?thesis by (simp add: set_select_gaussians)
qed

section \<open>Properties of the loss\<close>

lemma depth_error_nonneg_mask:
  assumes "\<forall>m \<in> set dm. 0 \<le> m"
  shows "Ll1depth_pure a b dm = spec_depth_error a b dm"
proof -
  have pt: "\<And>u v m. ((u, v), m) \<in> set (zip (zip a b) dm) \<Longrightarrow> \<bar>(u - v) * m\<bar> = \<bar>u - v\<bar> * m"
  proof -
    fix u v m assume "((u, v), m) \<in> set (zip (zip a b) dm)"
    then have "m \<in> set dm" by (rule set_zip_rightD)
    with assms have "0 \<le> m" by blast
    then show "\<bar>(u - v) * m\<bar> = \<bar>u - v\<bar> * m" by (simp add: abs_mult)
  qed
  have "map (\<lambda>((u, v), m). \<bar>(u - v) * m\<bar>) (zip (zip a b) dm) =
        map (\<lambda>((u, v), m). \<bar>u - v\<bar> * m) (zip (zip a b) dm)"
    by (rule map_cong) (auto simp: pt)
  then show ?thesis
    unfolding Ll1depth_pure_def spec_depth_error_def by (rule arg_cong)
qed

lemma wavelet_loss_levels:
  "wavelet_loss opt iteration level_loss =
     level_loss 0 * (wavelet_weights opt iteration ! 0)
     + level_loss 1 * (wavelet_weights opt iteration ! 1)
     + level_loss 2 * (wavelet_weights opt iteration ! 2)"
proof -
  have "[0 ..< 3] = [0, 1, 2 :: nat]" by (simp add: upt_rec)
  then show ?thesis by (simp add: wavelet_loss_def)
qed

text \<open>
  Claim C5. With a validity mask that has no negative entry, the loss that is
  back-propagated equals \<open>(1 - lambda_dssim) L1 + lambda_dssim (1 - ssim) + wavelet_loss\<close>
  plus, exactly when the depth weight of the iteration is positive and the viewpoint is
  depth-reliable, the weight times the mean of
  \<open>|rendered_invdepth - reference_invdepth| * validity_mask\<close>, and plus zero otherwise.
\<close>

theorem C5_total_loss:
  assumes "\<forall>m \<in> set (depth_mask viewpoint_cam). 0 \<le> m"
  shows "total_loss opt depth_l1_weight iteration Ll1 ssim_value
           (wavelet_loss opt iteration level_loss) viewpoint_cam invDepth =
           (1 - lambda_dssim opt) * Ll1 + lambda_dssim opt * (1 - ssim_value)
           + wavelet_loss opt iteration level_loss
           + (if depth_l1_weight iteration > 0 \<and> depth_reliable viewpoint_cam
              then depth_l1_weight iteration
                   * spec_depth_error invDepth (invdepthmap viewpoint_cam) (depth_mask viewpoint_cam)
              else 0)"
  using depth_error_nonneg_mask [OF assms]
  by (simp add: total_loss_def Let_def)

theorem C5_total_loss_witness:
  "depth_mask example_viewpoint = [1, 1, 0] \<and>
   wavelet_loss example_opt 100 (\<lambda>l. 1 / 5) = 3 \<and>
   total_loss example_opt (\<lambda>i. 1 / 2) 100 (1 / 10) (9 / 10)
       (wavelet_loss example_opt 100 (\<lambda>l. 1 / 5)) example_viewpoint [1, 5, 2]
     = 18 / 5 \<and>
   total_loss example_opt (\<lambda>i. 1 / 2) 100 (1 / 10) (9 / 10)
       (wavelet_loss example_opt 100 (\<lambda>l. 1 / 5))
       (example_viewpoint\<lparr>depth_reliable := False\<rparr>) [1, 5, 2]
     = 31 / 10"
proof -
  have h: "\<forall>m \<in> set (depth_mask example_viewpoint). 0 \<le> m"
    by (simp add: example_viewpoint_def)
  have h': "\<forall>m \<in> set (depth_mask (example_viewpoint\<lparr>depth_reliable := False\<rparr>)). 0 \<le> m"
    by (simp add: example_viewpoint_def)
  have w: "wavelet_loss example_opt 100 (\<lambda>l. 1 / 5) = 3"
    by (simp add: wavelet_loss_levels wavelet_weights_def example_opt_def)
  have a: "total_loss example_opt (\<lambda>i. 1 / 2) 100 (1 / 10) (9 / 10)
             (wavelet_loss example_opt 100 (\<lambda>l. 1 / 5)) example_viewpoint [1, 5, 2]
             = 18 / 5"
    using C5_total_loss [OF h, of example_opt "\<lambda>i. 1 / 2" 100 "1 / 10" "9 / 10"
                          "\<lambda>l. 1 / 5" "[1, 5, 2]"]
    unfolding w
    by (simp add: example_opt_def example_viewpoint_def spec_depth_error_def mean_t_def)
  have b: "total_loss example_opt (\<lambda>i. 1 / 2) 100 (1 / 10) (9 / 10)
             (wavelet_loss example_opt 100 (\<lambda>l. 1 / 5))
             (example_viewpoint\<lparr>depth_reliable := False\<rparr>) [1, 5, 2] = 31 / 10"
    using C5_total_loss [OF h', of example_opt "\<lambda>i. 1 / 2" 100 "1 / 10" "9 / 10"
                           "\<lambda>l. 1 / 5" "[1, 5, 2]"]
    unfolding w
    by (simp add: example_opt_def example_viewpoint_def)
  have m: "depth_mask example_viewpoint = [1, 1, 0]" by (simp add: example_viewpoint_def)
  from m w a b show ?thesis by blast
qed

section \<open>Properties of the densification block\<close>

lemma bind_res_Inr_iff: "bind_res r f = Inr y \<longleftrightarrow> (\<exists>v. r = Inr v \<and> f v = Inr y)"
  by (cases r) (simp_all add: bind_res_def)

lemma bind_res_Inr: "bind_res (Inr v) f = f v"
  by (simp add: bind_res_def)

lemma update_max_radii2D_ok:
  assumes "length vis = length mr" "length rad = length mr"
  shows "\<exists>mr'. update_max_radii2D mr vis rad = Inr mr' \<and> length mr' = length mr \<and>
           (\<forall>i < length mr. mr' ! i = (if vis ! i then max (mr ! i) (rad ! i) else mr ! i))"
  using assms by (simp add: update_max_radii2D_def)

lemma add_densification_stats_ok:
  assumes "length vis = length (xyz_gradient_accum st)" "length vis = length (denom st)"
    "length gn = length vis"
  shows "\<exists>st'. add_densification_stats gn vis st = Inr st' \<and>
           params st' = params st \<and> max_radii2D st' = max_radii2D st \<and>
           length (xyz_gradient_accum st') = length vis \<and> length (denom st') = length vis \<and>
           (\<forall>i < length vis.
              xyz_gradient_accum st' ! i =
                (if vis ! i then xyz_gradient_accum st ! i + gn ! i else xyz_gradient_accum st ! i) \<and>
              denom st' ! i = (if vis ! i then denom st ! i + 1 else denom st ! i))"
  using assms by (simp add: add_densification_stats_def)

lemma statistics_update_ok:
  assumes "shapes_agree inp st"
  shows "\<exists>st1. statistics_update inp st = Inr st1 \<and> params st1 = params st \<and>
           shapes_agree inp st1 \<and>
           (\<forall>i < length (max_radii2D st).
              max_radii2D st1 ! i =
                (if visibility_filter inp ! i
                 then max (max_radii2D st ! i) (radii inp ! i) else max_radii2D st ! i) \<and>
              xyz_gradient_accum st1 ! i =
                (if visibility_filter inp ! i
                 then xyz_gradient_accum st ! i + viewspace_grad_norm inp ! i
                 else xyz_gradient_accum st ! i) \<and>
              denom st1 ! i =
                (if visibility_filter inp ! i then denom st ! i + 1 else denom st ! i))"
proof -
  from assms have l: "length (visibility_filter inp) = length (max_radii2D st)"
    "length (radii inp) = length (max_radii2D st)"
    "length (viewspace_grad_norm inp) = length (max_radii2D st)"
    "length (xyz_gradient_accum st) = length (max_radii2D st)"
    "length (denom st) = length (max_radii2D st)"
    by (simp_all add: shapes_agree_def)
  from update_max_radii2D_ok [OF l(1) l(2)] obtain mr' where
    mr: "update_max_radii2D (max_radii2D st) (visibility_filter inp) (radii inp) = Inr mr'"
      "length mr' = length (max_radii2D st)"
      "\<forall>i < length (max_radii2D st). mr' ! i =
         (if visibility_filter inp ! i
          then max (max_radii2D st ! i) (radii inp ! i) else max_radii2D st ! i)"
    by blast
  let ?s = "st\<lparr>max_radii2D := mr'\<rparr>"
  have "length (visibility_filter inp) = length (xyz_gradient_accum ?s)"
    "length (visibility_filter inp) = length (denom ?s)"
    "length (viewspace_grad_norm inp) = length (visibility_filter inp)"
    using l by simp_all
  from add_densification_stats_ok [OF this] obtain st1 where
    s1: "add_densification_stats (viewspace_grad_norm inp) (visibility_filter inp) ?s = Inr st1"
      "params st1 = params ?s" "max_radii2D st1 = max_radii2D ?s"
      "length (xyz_gradient_accum st1) = length (visibility_filter inp)"
      "length (denom st1) = length (visibility_filter inp)"
      "\<forall>i < length (visibility_filter inp).
         xyz_gradient_accum st1 ! i =
           (if visibility_filter inp ! i
            then xyz_gradient_accum ?s ! i + viewspace_grad_norm inp ! i
            else xyz_gradient_accum ?s ! i) \<and>
         denom st1 ! i = (if visibility_filter inp ! i then denom ?s ! i + 1 else denom ?s ! i)"
    by blast
  have run: "statistics_update inp st = Inr st1"
    by (simp add: statistics_update_def mr(1) bind_res_Inr s1(1))
  have sh: "shapes_agree inp st1"
    using l mr(2) s1(3,4,5) by (simp add: shapes_agree_def)
  have pw: "\<forall>i < length (max_radii2D st).
              max_radii2D st1 ! i =
                (if visibility_filter inp ! i
                 then max (max_radii2D st ! i) (radii inp ! i) else max_radii2D st ! i) \<and>
              xyz_gradient_accum st1 ! i =
                (if visibility_filter inp ! i
                 then xyz_gradient_accum st ! i + viewspace_grad_norm inp ! i
                 else xyz_gradient_accum st ! i) \<and>
              denom st1 ! i =
                (if visibility_filter inp ! i then denom st ! i + 1 else denom st ! i)"
    using mr(3) s1(3,6) l(1) by simp
  from run sh pw s1(2) show ?thesis by simp
qed

lemma densify_step_events:
  assumes "densify_step ext cfg opt iteration inp flagged st = Inr (st', ev)"
  shows "ev = [] \<or>
         (\<exists>thr. ev = [DensifyAndPrune thr flagged] \<and> densify_from_iter opt < iteration \<and>
            densification_interval opt \<noteq> 0 \<and> iteration mod densification_interval opt = 0)"
  using assms
  by (auto simp: densify_step_def pymod_def bind_res_def Let_def split: if_splits)

lemma densify_step_total:
  assumes "densification_interval opt \<noteq> 0"
  shows "\<exists>st' ev. densify_step ext cfg opt iteration inp flagged st = Inr (st', ev)"
  using assms by (simp add: densify_step_def pymod_def bind_res_def Let_def)

lemma reset_step_events:
  assumes "reset_step ext cfg opt iteration st = Inr (st', ev)"
  shows "opacity_reset_interval opt \<noteq> 0 \<and>
         ev = (if iteration mod opacity_reset_interval opt = 0
                  \<or> (white_background cfg \<and> iteration = densify_from_iter opt)
               then [ResetOpacity] else [])"
  using assms
  by (auto simp: reset_step_def pymod_def bind_res_def split: if_splits)

lemma reset_step_total:
  assumes "opacity_reset_interval opt \<noteq> 0"
  shows "\<exists>st' ev. reset_step ext cfg opt iteration st = Inr (st', ev)"
  using assms by (simp add: reset_step_def pymod_def bind_res_def)

lemma densification_events:
  assumes "densification ext cfg opt iteration inp flagged st = Inr (st', ev)"
  shows "\<exists>ev2 ev3. ev = ev2 @ ev3 \<and>
           (ev2 = [] \<or> (\<exists>thr. ev2 = [DensifyAndPrune thr flagged] \<and>
              densify_from_iter opt < iteration \<and> iteration < densify_until_iter opt \<and>
              densification_interval opt \<noteq> 0 \<and> iteration mod densification_interval opt = 0)) \<and>
           ev3 = (if iteration < densify_until_iter opt \<and>
                     (iteration mod opacity_reset_interval opt = 0
                      \<or> (white_background cfg \<and> iteration = densify_from_iter opt))
                  then [ResetOpacity] else [])"
proof (cases "iteration < densify_until_iter opt")
  case False
  with assms show ?thesis by (simp add: densification_def)
next
  case True
  with assms obtain st1 st2 ev2 st3 ev3 where
    d: "densify_step ext cfg opt iteration inp flagged st1 = Inr (st2, ev2)" and
    r: "reset_step ext cfg opt iteration st2 = Inr (st3, ev3)" and
    e: "ev = ev2 @ ev3"
    by (auto simp: densification_def bind_res_Inr_iff)
  from densify_step_events [OF d] reset_step_events [OF r] True e
  show ?thesis by auto
qed

lemma densification_total:
  assumes "shapes_agree inp st" "densification_interval opt \<noteq> 0"
    "opacity_reset_interval opt \<noteq> 0"
  shows "\<exists>st' ev. densification ext cfg opt iteration inp flagged st = Inr (st', ev)"
proof (cases "iteration < densify_until_iter opt")
  case False
  then show ?thesis by (simp add: densification_def)
next
  case True
  from statistics_update_ok [OF assms(1)] obtain st1 where
    s: "statistics_update inp st = Inr st1" by blast
  from densify_step_total [OF assms(2)] obtain st2 ev2 where
    d: "densify_step ext cfg opt iteration inp flagged st1 = Inr (st2, ev2)" by blast
  from reset_step_total [OF assms(3)] obtain st3 ev3 where
    r: "reset_step ext cfg opt iteration st2 = Inr (st3, ev3)" by blast
  show ?thesis using True by (simp add: densification_def s d r bind_res_Inr)
qed

text \<open>
  Claim C6, counterexample. At iteration 15000, the window end, primitive 0 is visible
  with screen radius 5 while its recorded maximum is 1. The iteration completes with the
  statistics unchanged: the recorded maxima are still \<open>[1, 2]\<close>, and the gradient sums
  and visit counts are still zero.
\<close>

theorem C6_counterexample:
  "densify_until_iter example_opt \<le> 15000 \<and>
   visibility_filter (render_and_backward example_ext 15000 example_gaussians) ! 0 \<and>
   radii (render_and_backward example_ext 15000 example_gaussians) ! 0 = 5 \<and>
   max_radii2D example_gaussians ! 0 = 1 \<and>
   training_iteration example_ext example_cfg example_opt 15000 example_gaussians =
     Inr (\<lparr> params = 9, max_radii2D = [1, 2], xyz_gradient_accum = [0, 0], denom = [0, 0] \<rparr>,
          [ZeroGrad, TermBackward L1_term, ZeroGrad, TermBackward SSIM_term,
           ZeroGrad, TermBackward Wavelet_term, Backward,
           ExposureStep, ExposureZeroGrad, OptimizerStep False, ZeroGrad])"
  by (simp add: training_iteration_def gaussians_to_densify_def localizer_def
      densification_def optimizer_block_def use_sparse_adam_def gradient_report_def
      bind_res_def example_input_def example_gaussians_def example_opt_def example_cfg_def
      example_ext_def)

text \<open>
  Claim C6, amended. At every iteration strictly before \<open>densify_until_iter\<close> (and at no
  other iteration) the maximum observed screen radius is updated as the elementwise
  maximum with the current radii, and the accumulated gradient magnitude and its visit
  count are updated, both exactly for the primitives visible in that iteration, leaving
  the statistics of the other primitives and the trainable tensors unchanged; the growth
  and reset steps of the iteration start from the updated statistics. At an iteration at
  or after \<open>densify_until_iter\<close> the population is left as it is.
\<close>

theorem C6_statistics_tracked_before_window_end:
  assumes "shapes_agree inp st"
  shows "\<exists>st1. statistics_update inp st = Inr st1 \<and> params st1 = params st \<and>
           (\<forall>i < length (max_radii2D st).
              max_radii2D st1 ! i =
                (if visibility_filter inp ! i
                 then max (max_radii2D st ! i) (radii inp ! i) else max_radii2D st ! i) \<and>
              xyz_gradient_accum st1 ! i =
                (if visibility_filter inp ! i
                 then xyz_gradient_accum st ! i + viewspace_grad_norm inp ! i
                 else xyz_gradient_accum st ! i) \<and>
              denom st1 ! i =
                (if visibility_filter inp ! i then denom st ! i + 1 else denom st ! i)) \<and>
           densification ext cfg opt iteration inp flagged st =
             (if iteration < densify_until_iter opt then
                bind_res (densify_step ext cfg opt iteration inp flagged st1)
                  (\<lambda>(st2, ev2). bind_res (reset_step ext cfg opt iteration st2)
                     (\<lambda>(st3, ev3). Inr (st3, ev2 @ ev3)))
              else Inr (st, []))"
proof -
  from statistics_update_ok [OF assms] obtain st1 where
    s: "statistics_update inp st = Inr st1" "params st1 = params st"
      "\<forall>i < length (max_radii2D st).
              max_radii2D st1 ! i =
                (if visibility_filter inp ! i
                 then max (max_radii2D st ! i) (radii inp ! i) else max_radii2D st ! i) \<and>
              xyz_gradient_accum st1 ! i =
                (if visibility_filter inp ! i
                 then xyz_gradient_accum st ! i + viewspace_grad_norm inp ! i
                 else xyz_gradient_accum st ! i) \<and>
              denom st1 ! i =
                (if visibility_filter inp ! i then denom st ! i + 1 else denom st ! i)"
    by blast
  have "densification ext cfg opt iteration inp flagged st =
             (if iteration < densify_until_iter opt then
                bind_res (densify_step ext cfg opt iteration inp flagged st1)
                  (\<lambda>(st2, ev2). bind_res (reset_step ext cfg opt iteration st2)
                     (\<lambda>(st3, ev3). Inr (st3, ev2 @ ev3)))
              else Inr (st, []))"
    by (simp add: densification_def s(1) bind_res_Inr)
  with s show ?thesis by blast
qed

theorem C6_statistics_tracked_before_window_end_witness:
  "shapes_agree example_input example_gaussians \<and>
   statistics_update example_input example_gaussians =
     Inr \<lparr> params = 10, max_radii2D = [5, 2], xyz_gradient_accum = [3, 0], denom = [1, 0] \<rparr> \<and>
   densification example_ext example_cfg example_opt 450 example_input None example_gaussians =
     Inr (\<lparr> params = 10, max_radii2D = [5, 2], xyz_gradient_accum = [3, 0], denom = [1, 0] \<rparr>, [])"
proof -
  have h: "shapes_agree example_input example_gaussians"
    by (simp add: shapes_agree_def example_input_def example_gaussians_def)
  have v: "statistics_update example_input example_gaussians =
     Inr \<lparr> params = 10, max_radii2D = [5, 2], xyz_gradient_accum = [3, 0], denom = [1, 0] \<rparr>"
    by (simp add: statistics_update_def update_max_radii2D_def add_densification_stats_def
        bind_res_def example_input_def example_gaussians_def)
  from C6_statistics_tracked_before_window_end
         [OF h, of example_ext example_cfg example_opt 450 None]
  have "densification example_ext example_cfg example_opt 450 example_input None
          example_gaussians =
        bind_res (densify_step example_ext example_cfg example_opt 450 example_input None
           \<lparr> params = 10, max_radii2D = [5, 2], xyz_gradient_accum = [3, 0], denom = [1, 0] \<rparr>)
          (\<lambda>(st2, ev2). bind_res (reset_step example_ext example_cfg example_opt 450 st2)
             (\<lambda>(st3, ev3). Inr (st3, ev2 @ ev3)))"
    by (auto simp: v example_opt_def)
  then have "densification example_ext example_cfg example_opt 450 example_input None
                example_gaussians =
     Inr (\<lparr> params = 10, max_radii2D = [5, 2], xyz_gradient_accum = [3, 0], denom = [1, 0] \<rparr>, [])"
    by (simp add: densify_step_def reset_step_def pymod_def bind_res_def example_opt_def
        example_cfg_def)
  with h v show ?thesis by blast
qed

text \<open>
  Claim C7, counterexample. Iteration 18000 is a multiple of the reset interval 3000 but
  lies after the window end 15000: the iteration completes without an opacity reset.
\<close>

theorem C7_counterexample:
  "18000 mod opacity_reset_interval example_opt = 0 \<and>
   training_iteration example_ext example_cfg example_opt 18000 example_gaussians =
     Inr (\<lparr> params = 9, max_radii2D = [1, 2], xyz_gradient_accum = [0, 0], denom = [0, 0] \<rparr>,
          [ZeroGrad, TermBackward L1_term, ZeroGrad, TermBackward SSIM_term,
           ZeroGrad, TermBackward Wavelet_term, Backward,
           ExposureStep, ExposureZeroGrad, OptimizerStep False, ZeroGrad])"
  by (simp add: training_iteration_def gaussians_to_densify_def
      densification_def optimizer_block_def use_sparse_adam_def gradient_report_def
      bind_res_def example_input_def example_gaussians_def example_opt_def example_cfg_def
      example_ext_def)

text \<open>
  Claim C7, amended. With non-zero intervals, an opacity reset is performed at iteration
  \<open>i\<close> if and only if \<open>i\<close> is before \<open>densify_until_iter\<close> and either \<open>i\<close> is a multiple
  of \<open>opacity_reset_interval\<close>, or the background is white and \<open>i\<close> equals
  \<open>densify_from_iter\<close>.
\<close>

theorem C7_opacity_reset_schedule:
  assumes "shapes_agree inp st" "densification_interval opt \<noteq> 0"
    "opacity_reset_interval opt \<noteq> 0"
  shows "\<exists>st' ev. densification ext cfg opt iteration inp flagged st = Inr (st', ev) \<and>
           (ResetOpacity \<in> set ev \<longleftrightarrow>
              iteration < densify_until_iter opt \<and>
              (iteration mod opacity_reset_interval opt = 0
               \<or> (white_background cfg \<and> iteration = densify_from_iter opt)))"
proof -
  from densification_total [OF assms] obtain st' ev where
    r: "densification ext cfg opt iteration inp flagged st = Inr (st', ev)" by blast
  from densification_events [OF r] have eq:
    "ResetOpacity \<in> set ev \<longleftrightarrow>
       iteration < densify_until_iter opt \<and>
       (iteration mod opacity_reset_interval opt = 0
        \<or> (white_background cfg \<and> iteration = densify_from_iter opt))"
    by auto
  show ?thesis
    by (rule exI [of _ st'], rule exI [of _ ev]) (simp only: r eq simp_thms)
qed

theorem C7_opacity_reset_schedule_witness:
  "shapes_agree example_input example_gaussians \<and>
   densification_interval example_opt \<noteq> 0 \<and> opacity_reset_interval example_opt \<noteq> 0 \<and>
   densification example_ext example_cfg example_opt 3000 example_input (Some [0, 1])
     example_gaussians =
     Inr (\<lparr> params = 10, max_radii2D = [0, 0], xyz_gradient_accum = [3, 0], denom = [1, 0] \<rparr>,
          [DensifyAndPrune None (Some [0, 1]), ResetOpacity]) \<and>
   ResetOpacity \<in> set [DensifyAndPrune None (Some [0, 1]), ResetOpacity :: real event]"
proof -
  have h: "shapes_agree example_input example_gaussians"
    by (simp add: shapes_agree_def example_input_def example_gaussians_def)
  have i1: "densification_interval example_opt \<noteq> 0" by (simp add: example_opt_def)
  have i2: "opacity_reset_interval example_opt \<noteq> 0" by (simp add: example_opt_def)
  have v: "densification example_ext example_cfg example_opt 3000 example_input (Some [0, 1])
     example_gaussians =
     Inr (\<lparr> params = 10, max_radii2D = [0, 0], xyz_gradient_accum = [3, 0], denom = [1, 0] \<rparr>,
          [DensifyAndPrune None (Some [0, 1]), ResetOpacity])"
    by (simp add: densification_def statistics_update_def update_max_radii2D_def
        add_densification_stats_def densify_step_def reset_step_def pymod_def bind_res_def
        example_input_def example_gaussians_def example_opt_def example_cfg_def example_ext_def)
  from C7_opacity_reset_schedule
         [OF h i1 i2, of example_ext example_cfg 3000 "Some [0, 1]"]
  have "ResetOpacity \<in> set [DensifyAndPrune None (Some [0, 1]), ResetOpacity :: real event]"
    by (simp add: v example_opt_def)
  with h i1 i2 v show ?thesis by blast
qed

section \<open>Properties of one iteration and of the loop\<close>


lemma optimizer_block_events:
  "snd (optimizer_block ext cfg opt iteration inp st) =
     (if iteration < iterations opt
      then [ExposureStep, ExposureZeroGrad, OptimizerStep (use_sparse_adam cfg opt), ZeroGrad]
      else [])"
  by (simp add: optimizer_block_def Let_def)

lemma gaussians_to_densify_Inr:
  assumes "gaussians_to_densify opt iteration d p = Inr flagged"
  shows "(if densify_from_iter opt \<le> iteration \<and> iteration \<le> densify_until_iter opt
          then \<exists>gs. flagged = Some gs \<and> localizer opt iteration d p = Inr gs
          else flagged = None)"
  using assms by (auto simp: gaussians_to_densify_def bind_res_Inr_iff split: if_splits)



text \<open>The shape of a completed iteration.\<close>

lemma training_iteration_Inr:
  assumes "training_iteration ext cfg opt iteration st = Inr (st', ev)"
  shows "\<exists>flagged st1 ev1.
           gaussians_to_densify opt iteration
             (per_pixel_discrepancy (render_and_backward ext iteration st))
             (pixel_to_gaussians (render_and_backward ext iteration st)) = Inr flagged \<and>
           densification ext cfg opt iteration (render_and_backward ext iteration st) flagged st
             = Inr (st1, ev1) \<and>
           st' = fst (optimizer_block ext cfg opt iteration
                        (render_and_backward ext iteration st) st1) \<and>
           ev = (gradient_report iteration @ Backward #
                   (if iteration \<in> set (saving_iterations cfg)
                             then [SceneSave iteration (params st)] else []))
                @ ev1
                @ snd (optimizer_block ext cfg opt iteration
                         (render_and_backward ext iteration st) st1)
                @ (if iteration \<in> set (checkpoint_iterations cfg)
                   then [Checkpoint iteration st'] else [])"
  using assms
  by (auto simp: training_iteration_def Let_def bind_res_Inr_iff case_prod_beta)

lemma training_iteration_no_dense_step:
  assumes "training_iteration ext cfg opt iteration st = Inr (st', ev)"
    "use_sparse_adam cfg opt"
  shows "OptimizerStep False \<notin> set ev"
proof -
  from training_iteration_Inr [OF assms(1)] obtain flagged st1 ev1 where
    d: "densification ext cfg opt iteration (render_and_backward ext iteration st) flagged st
          = Inr (st1, ev1)" and
    e: "ev = (gradient_report iteration @ Backward #
                   (if iteration \<in> set (saving_iterations cfg)
                             then [SceneSave iteration (params st)] else []))
                @ ev1
                @ snd (optimizer_block ext cfg opt iteration
                         (render_and_backward ext iteration st) st1)
                @ (if iteration \<in> set (checkpoint_iterations cfg)
                   then [Checkpoint iteration st'] else [])"
    by blast
  from densification_events [OF d] have "OptimizerStep False \<notin> set ev1" by auto
  then show ?thesis using assms(2) by (auto simp: e optimizer_block_events gradient_report_def)
qed

lemma run_iterations_no_dense_step:
  assumes "use_sparse_adam cfg opt"
  shows "OptimizerStep False \<notin> set (fst (run_iterations ext cfg opt its st))"
proof (induction its arbitrary: st)
  case Nil
  show ?case by simp
next
  case (Cons i its)
  show ?case
  proof (cases "training_iteration ext cfg opt i st")
    case (Inl e)
    then show ?thesis by simp
  next
    case (Inr r)
    obtain st1 ev1 where r: "r = (st1, ev1)" by (cases r)
    from Inr r have "OptimizerStep False \<notin> set ev1"
      using training_iteration_no_dense_step assms by blast
    moreover have "OptimizerStep False \<notin> set (fst (run_iterations ext cfg opt its st1))"
      by (rule Cons.IH)
    ultimately show ?thesis using Inr r by (simp add: case_prod_beta)
  qed
qed

text \<open>
  Claim C8. When the sparse optimizer is selected and its implementation is unavailable,
  \<open>training\<close> stops with \<open>sys.exit\<close> carrying a non-empty message, hence with exit
  status 1, and no event of any iteration has happened. Whatever the availability, a run
  that selected the sparse optimizer never steps the dense one.
\<close>

theorem C8_sparse_adam_unavailable_is_fatal:
  assumes "optimizer_type opt = ''sparse_adam''"
  shows "(\<not> SPARSE_ADAM_AVAILABLE cfg \<longrightarrow>
            training ext cfg opt first_iter st =
              ([], Inl (SystemExit (ExitMsg sparse_adam_message))) \<and>
            exit_status (ExitMsg sparse_adam_message) \<noteq> 0 \<and>
            sparse_adam_message \<noteq> []) \<and>
         OptimizerStep False \<notin> set (fst (training ext cfg opt first_iter st))"
proof (cases "SPARSE_ADAM_AVAILABLE cfg")
  case True
  with assms have "use_sparse_adam cfg opt" by (simp add: use_sparse_adam_def)
  then show ?thesis
    using True by (simp add: training_def run_iterations_no_dense_step)
next
  case False
  with assms show ?thesis by (simp add: training_def sparse_adam_message_def)
qed

theorem C8_sparse_adam_unavailable_is_fatal_witness:
  "optimizer_type (example_opt\<lparr>optimizer_type := ''sparse_adam''\<rparr>) = ''sparse_adam'' \<and>
   \<not> SPARSE_ADAM_AVAILABLE example_cfg \<and>
   training example_ext example_cfg (example_opt\<lparr>optimizer_type := ''sparse_adam''\<rparr>) 0
       example_gaussians =
     ([], Inl (SystemExit (ExitMsg sparse_adam_message))) \<and>
   exit_status (ExitMsg sparse_adam_message) = 1"
proof -
  have h: "optimizer_type (example_opt\<lparr>optimizer_type := ''sparse_adam''\<rparr>) = ''sparse_adam''"
    by simp
  have n: "\<not> SPARSE_ADAM_AVAILABLE example_cfg" by (simp add: example_cfg_def)
  from C8_sparse_adam_unavailable_is_fatal [OF h, of example_cfg example_ext 0 example_gaussians] n
  have "training example_ext example_cfg (example_opt\<lparr>optimizer_type := ''sparse_adam''\<rparr>) 0
          example_gaussians = ([], Inl (SystemExit (ExitMsg sparse_adam_message)))"
    by blast
  with h n show ?thesis by simp
qed

text \<open>
  Claim C9. In a completed iteration, every call of \<open>densify_and_prune\<close> happens at an
  iteration strictly inside the window and divisible by the densification interval, and
  the flagged set it receives is not \<open>None\<close>: it is the set the localizer computed from
  the render output of this same iteration.
\<close>

theorem C9_flagged_set_present_at_densification:
  assumes "training_iteration ext cfg opt iteration st = Inr (st', ev)"
    and "DensifyAndPrune thr flagged \<in> set ev"
  shows "densify_from_iter opt < iteration \<and> iteration < densify_until_iter opt \<and>
         densification_interval opt \<noteq> 0 \<and> iteration mod densification_interval opt = 0 \<and>
         flagged \<noteq> None \<and>
         (\<exists>gs. flagged = Some gs \<and>
            localizer opt iteration
              (per_pixel_discrepancy (render_and_backward ext iteration st))
              (pixel_to_gaussians (render_and_backward ext iteration st)) = Inr gs)"
proof -
  let ?inp = "render_and_backward ext iteration st"
  from training_iteration_Inr [OF assms(1)] obtain fl st1 ev1 where
    g: "gaussians_to_densify opt iteration (per_pixel_discrepancy ?inp)
          (pixel_to_gaussians ?inp) = Inr fl" and
    d: "densification ext cfg opt iteration ?inp fl st = Inr (st1, ev1)" and
    e: "ev = (gradient_report iteration @ Backward #
                   (if iteration \<in> set (saving_iterations cfg)
                             then [SceneSave iteration (params st)] else []))
                @ ev1
                @ snd (optimizer_block ext cfg opt iteration ?inp st1)
                @ (if iteration \<in> set (checkpoint_iterations cfg)
                   then [Checkpoint iteration st'] else [])"
    by blast
  from assms(2) have in1: "DensifyAndPrune thr flagged \<in> set ev1"
    by (auto simp: e optimizer_block_events gradient_report_def split: if_splits)
  from densification_events [OF d] in1 have
    w: "densify_from_iter opt < iteration" "iteration < densify_until_iter opt"
      "densification_interval opt \<noteq> 0" "iteration mod densification_interval opt = 0" and
    f: "flagged = fl"
    by (auto split: if_splits)
  from gaussians_to_densify_Inr [OF g] w(1,2) obtain gs where
    "fl = Some gs" "localizer opt iteration (per_pixel_discrepancy ?inp)
       (pixel_to_gaussians ?inp) = Inr gs"
    by auto
  with w f show ?thesis by simp
qed

theorem C9_flagged_set_present_at_densification_witness:
  "training_iteration example_ext example_cfg example_opt 600 example_gaussians =
     Inr (\<lparr> params = 9, max_radii2D = [0, 0], xyz_gradient_accum = [3, 0], denom = [1, 0] \<rparr>,
          [Backward, DensifyAndPrune None (Some [0, 1]), ExposureStep, ExposureZeroGrad,
           OptimizerStep False, ZeroGrad]) \<and>
   localizer example_opt 600 (per_pixel_discrepancy example_input)
     (pixel_to_gaussians example_input) = Inr [0, 1]"
proof -
  have v: "training_iteration example_ext example_cfg example_opt 600 example_gaussians =
     Inr (\<lparr> params = 9, max_radii2D = [0, 0], xyz_gradient_accum = [3, 0], denom = [1, 0] \<rparr>,
          [Backward, DensifyAndPrune None (Some [0, 1]), ExposureStep, ExposureZeroGrad,
           OptimizerStep False, ZeroGrad])"
    by (simp add: training_iteration_def gaussians_to_densify_def localizer_def
        select_gaussians_def discrepancy_mask_def cutoff_def tquantile_def
        normalized_tensor_def d_max_def d_min_def tdiv_def percentile_def tsort_def tlerp_def
        densification_def statistics_update_def update_max_radii2D_def
        add_densification_stats_def densify_step_def reset_step_def pymod_def bind_res_def
        optimizer_block_def use_sparse_adam_def gradient_report_def
        example_input_def example_gaussians_def example_opt_def example_cfg_def example_ext_def)
  have m: "DensifyAndPrune None (Some [0, 1]) \<in>
             set [Backward, DensifyAndPrune None (Some [0, 1]), ExposureStep, ExposureZeroGrad,
                  OptimizerStep False, ZeroGrad :: real event]"
    by simp
  from C9_flagged_set_present_at_densification [OF v m]
  have "localizer example_opt 600 (per_pixel_discrepancy example_input)
          (pixel_to_gaussians example_input) = Inr [0, 1]"
    by (simp add: example_ext_def)
  with v show ?thesis by blast
qed



end
